theory Spec2Isabelle
  imports Main
begin

section \<open>Python values used by the example script\<close>

text \<open>
  The development embeds \<^verbatim>\<open>examples/02_remote_agent_server_cn/01_convo_with_local_agent_server.py\<close>:
  the function \<^verbatim>\<open>_stream_output\<close> and the class \<^verbatim>\<open>ManagedAPIServer\<close>.
  A Python \<^verbatim>\<open>str\<close> is a \<open>string\<close>; the Chinese text of the messages is written as its
  UTF-8 bytes. Durations are natural numbers of milliseconds (\<^verbatim>\<open>1.0\<close> s is 1000,
  \<^verbatim>\<open>0.5\<close> s is 500).
\<close>

type_synonym time = nat

datatype py_exception =
    RuntimeError string
  | OSError string
  | ValueError string
  | TimeoutException
  | TimeoutExpired

text \<open>\<^verbatim>\<open>str(n)\<close> for an integer.\<close>

fun str_nat :: "nat \<Rightarrow> string" where
  "str_nat n =
     (if n < 10 then [''0123456789'' ! n]
      else str_nat (n div 10) @ [''0123456789'' ! (n mod 10)])"

declare str_nat.simps [simp del]

definition str_int :: "int \<Rightarrow> string" where
  "str_int i = (if i < 0 then CHR ''-'' # str_nat (nat (- i)) else str_nat (nat i))"

text \<open>\<^verbatim>\<open>str(e)\<close> for an exception: the message it was built with.\<close>

fun str_exc :: "py_exception \<Rightarrow> string" where
  "str_exc (RuntimeError m) = m"
| "str_exc (OSError m) = m"
| "str_exc (ValueError m) = m"
| "str_exc TimeoutException = []"
| "str_exc TimeoutExpired = []"

subsection \<open>The message texts\<close>

definition msg_starting :: "string \<Rightarrow> string" where
  "msg_starting url =
     [CHR 0xE6, CHR 0xAD, CHR 0xA3, CHR 0xE5, CHR 0x9C, CHR 0xA8] @ '' '' @ url @ '' '' @
     [CHR 0xE5, CHR 0x90, CHR 0xAF, CHR 0xE5, CHR 0x8A, CHR 0xA8] @ '' OpenHands API '' @
     [CHR 0xE6, CHR 0x9C, CHR 0x8D, CHR 0xE5, CHR 0x8A, CHR 0xA1, CHR 0xE5, CHR 0x99, CHR 0xA8,
      CHR 0xE2, CHR 0x80, CHR 0xA6, CHR 0xE2, CHR 0x80, CHR 0xA6]"

definition msg_ready :: "string \<Rightarrow> string" where
  "msg_ready url =
     ''API '' @
     [CHR 0xE6, CHR 0x9C, CHR 0x8D, CHR 0xE5, CHR 0x8A, CHR 0xA1, CHR 0xE5, CHR 0x99, CHR 0xA8,
      CHR 0xE5, CHR 0xB7, CHR 0xB2, CHR 0xE5, CHR 0x9C, CHR 0xA8] @ '' '' @ url @ '' '' @
     [CHR 0xE5, CHR 0xB0, CHR 0xB1, CHR 0xE7, CHR 0xBB, CHR 0xAA]"

definition msg_exited :: string where
  "msg_exited =
     [CHR 0xE6, CHR 0x9C, CHR 0x8D, CHR 0xE5, CHR 0x8A, CHR 0xA1, CHR 0xE5, CHR 0x99, CHR 0xA8,
      CHR 0xE8, CHR 0xBF, CHR 0x9B, CHR 0xE7, CHR 0xA8, CHR 0x8B, CHR 0xE6, CHR 0x84, CHR 0x8F,
      CHR 0xE5, CHR 0xA4, CHR 0x96, CHR 0xE7, CHR 0xBB, CHR 0x88, CHR 0xE6, CHR 0xAD, CHR 0xA2,
      CHR 0xE3, CHR 0x80, CHR 0x82, CHR 0xE8, CHR 0xAF, CHR 0xB7, CHR 0xE6, CHR 0x9F, CHR 0xA5,
      CHR 0xE7, CHR 0x9C, CHR 0x8B, CHR 0xE4, CHR 0xB8, CHR 0x8A, CHR 0xE6, CHR 0x96, CHR 0xB9,
      CHR 0xE6, CHR 0x9C, CHR 0x8D, CHR 0xE5, CHR 0x8A, CHR 0xA1, CHR 0xE5, CHR 0x99, CHR 0xA8,
      CHR 0xE6, CHR 0x97, CHR 0xA5, CHR 0xE5, CHR 0xBF, CHR 0x97, CHR 0xE4, CHR 0xBB, CHR 0xA5,
      CHR 0xE8, CHR 0x8E, CHR 0xB7, CHR 0xE5, CHR 0x8F, CHR 0x96, CHR 0xE8, CHR 0xAF, CHR 0xA6,
      CHR 0xE7, CHR 0xBB, CHR 0x86, CHR 0xE4, CHR 0xBF, CHR 0xA1, CHR 0xE6, CHR 0x81, CHR 0xAF,
      CHR 0xE3, CHR 0x80, CHR 0x82]"

definition msg_timeout_head :: string where
  "msg_timeout_head =
     [CHR 0xE6, CHR 0x9C, CHR 0x8D, CHR 0xE5, CHR 0x8A, CHR 0xA1, CHR 0xE5, CHR 0x99, CHR 0xA8,
      CHR 0xE5, CHR 0x9C, CHR 0xA8] @ '' ''"

definition msg_timeout_tail :: string where
  "msg_timeout_tail =
     '' '' @
     [CHR 0xE7, CHR 0xA7, CHR 0x92, CHR 0xE5, CHR 0x90, CHR 0x8E, CHR 0xE4, CHR 0xBB, CHR 0x8D,
      CHR 0xE6, CHR 0x9C, CHR 0xAA, CHR 0xE5, CHR 0x90, CHR 0xAF, CHR 0xE5, CHR 0x8A, CHR 0xA8]"

definition msg_timeout :: "int \<Rightarrow> string" where
  "msg_timeout max_retries = msg_timeout_head @ str_int max_retries @ msg_timeout_tail"

definition msg_stopping :: string where
  "msg_stopping =
     [CHR 0xE6, CHR 0xAD, CHR 0xA3, CHR 0xE5, CHR 0x9C, CHR 0xA8, CHR 0xE5, CHR 0x81, CHR 0x9C,
      CHR 0xE6, CHR 0xAD, CHR 0xA2] @ '' API '' @
     [CHR 0xE6, CHR 0x9C, CHR 0x8D, CHR 0xE5, CHR 0x8A, CHR 0xA1, CHR 0xE5, CHR 0x99, CHR 0xA8,
      CHR 0xE2, CHR 0x80, CHR 0xA6, CHR 0xE2, CHR 0x80, CHR 0xA6]"

definition msg_killing :: string where
  "msg_killing =
     [CHR 0xE7, CHR 0xBB, CHR 0x88, CHR 0xE6, CHR 0xAD, CHR 0xA2, CHR 0xE8, CHR 0xB6, CHR 0x85,
      CHR 0xE6, CHR 0x97, CHR 0xB6, CHR 0xEF, CHR 0xBC, CHR 0x8C, CHR 0xE6, CHR 0xAD, CHR 0xA3,
      CHR 0xE5, CHR 0x9C, CHR 0xA8, CHR 0xE5, CHR 0xBC, CHR 0xBA, CHR 0xE5, CHR 0x88, CHR 0xB6,
      CHR 0xE6, CHR 0x9D, CHR 0x80, CHR 0xE6, CHR 0xAD, CHR 0xBB] @ '' API '' @
     [CHR 0xE6, CHR 0x9C, CHR 0x8D, CHR 0xE5, CHR 0x8A, CHR 0xA1, CHR 0xE5, CHR 0x99, CHR 0xA8,
      CHR 0xE2, CHR 0x80, CHR 0xA6, CHR 0xE2, CHR 0x80, CHR 0xA6]"

definition msg_stopped :: string where
  "msg_stopped =
     ''API '' @
     [CHR 0xE6, CHR 0x9C, CHR 0x8D, CHR 0xE5, CHR 0x8A, CHR 0xA1, CHR 0xE5, CHR 0x99, CHR 0xA8,
      CHR 0xE5, CHR 0xB7, CHR 0xB2, CHR 0xE5, CHR 0x81, CHR 0x9C, CHR 0xE6, CHR 0xAD, CHR 0xA2,
      CHR 0xE3, CHR 0x80, CHR 0x82]"

definition msg_forward_error :: "string \<Rightarrow> py_exception \<Rightarrow> string" where
  "msg_forward_error prefix e =
     [CHR 0xE8, CHR 0xBD, CHR 0xAC, CHR 0xE5, CHR 0x8F, CHR 0x91] @ '' '' @ prefix @ '' '' @
     [CHR 0xE8, CHR 0xBE, CHR 0x93, CHR 0xE5, CHR 0x87, CHR 0xBA, CHR 0xE6, CHR 0x97, CHR 0xB6,
      CHR 0xE5, CHR 0x87, CHR 0xBA, CHR 0xE9, CHR 0x94, CHR 0x99] @ '': '' @ str_exc e"

section \<open>The world outside the script\<close>

text \<open>
  What the script does not decide is a parameter of the world: the inherited environment,
  what the HTTP endpoint answers (and after how long) to a request sent at a given instant,
  when the child exits by itself, and whether it exits on the graceful termination signal.
  The clock \<open>now\<close> moves only in the calls that block: the HTTP request, \<^verbatim>\<open>time.sleep\<close>
  and \<^verbatim>\<open>Popen.wait\<close>. Every call on the outside is written to \<open>trace\<close>, with what
  it observed.

  Only exceptions below \<^verbatim>\<open>Exception\<close> occur; \<^verbatim>\<open>subprocess.Popen\<close>, \<^verbatim>\<open>Thread.start\<close>
  and \<^verbatim>\<open>print\<close> are taken to succeed.
\<close>

datatype http_result = Response int | Raised py_exception

datatype popen = Child

datatype pipe = ChildStdout | ChildStderr

datatype std_stream = SysStdout | SysStderr

text \<open>A thread object: \<^verbatim>\<open>Thread(target=_stream_output, args=(stream, prefix, target), daemon=True)\<close>.\<close>

datatype thread = Thread pipe string std_stream

datatype event =
    EPrint string
  | EPopen "string list"
  | EThreadStart thread
  | EHttpGet string time http_result
  | EPoll "int option"
  | ESleep time
  | ETerminate
  | EWait "time option" "py_exception + int"
  | EKill

record world =
  now :: time
  trace :: "event list"
  os_environ :: "string \<rightharpoonup> string"
  http_at :: "string \<Rightarrow> time \<Rightarrow> http_result \<times> time"
  child_natural_exit :: "(time \<times> int) option"
  child_term_delay :: "time option"
  child_launched :: "(string list \<times> (string \<rightharpoonup> string)) option"
  child_exit :: "(time \<times> int) option"

text \<open>
  \<open>http_at w url t\<close> is the answer to a request for \<open>url\<close> sent at \<open>t\<close> and the time the
  answer takes. \<open>child_natural_exit\<close> is the delay after launch at which the child exits by
  itself, with its return code (\<open>None\<close>: it runs until signalled). \<open>child_term_delay\<close> is the
  time the child takes to exit after the termination signal (\<open>None\<close>: it ignores the signal).
  \<open>child_exit\<close> is the instant from which the launched child has exited, as far as the
  signals sent up to now decide it.
\<close>

definition log :: "event \<Rightarrow> world \<Rightarrow> world" where
  "log e w = w\<lparr>trace := trace w @ [e]\<rparr>"

definition print :: "string \<Rightarrow> world \<Rightarrow> world" where
  "print s w = log (EPrint s) w"

definition sleep :: "time \<Rightarrow> world \<Rightarrow> world" where
  "sleep d w = log (ESleep d) (w\<lparr>now := now w + d\<rparr>)"

text \<open>
  \<^verbatim>\<open>httpx.get(url, timeout=...)\<close>: the answer when it comes within the timeout, an exception
  at the timeout otherwise.
\<close>

definition httpx_get :: "string \<Rightarrow> time \<Rightarrow> world \<Rightarrow> http_result \<times> world" where
  "httpx_get url timeout w =
     (let (r, latency) = http_at w url (now w);
          (r', d) = (if latency \<le> timeout then (r, latency) else (Raised TimeoutException, timeout))
      in (r', log (EHttpGet url timeout r') (w\<lparr>now := now w + d\<rparr>)))"

text \<open>\<^verbatim>\<open>subprocess.Popen(args, stdout=PIPE, stderr=PIPE, text=True, env=env)\<close>.\<close>

definition Popen :: "string list \<Rightarrow> (string \<rightharpoonup> string) \<Rightarrow> world \<Rightarrow> popen \<times> world" where
  "Popen args env w =
     (Child,
      log (EPopen args)
        (w\<lparr>child_launched := Some (args, env),
           child_exit := (case child_natural_exit w of
                            None \<Rightarrow> None
                          | Some (d, rc) \<Rightarrow> Some (now w + d, rc))\<rparr>))"

text \<open>The return code of the child at the present instant, \<open>None\<close> while it runs.\<close>

definition returncode :: "world \<Rightarrow> int option" where
  "returncode w =
     (case child_exit w of
        None \<Rightarrow> None
      | Some (t, rc) \<Rightarrow> if t \<le> now w then Some rc else None)"

definition alive :: "world \<Rightarrow> bool" where
  "alive w = (child_launched w \<noteq> None \<and> returncode w = None)"

definition poll :: "popen \<Rightarrow> world \<Rightarrow> int option \<times> world" where
  "poll p w = (returncode w, log (EPoll (returncode w)) w)"

definition thread_start :: "thread \<Rightarrow> world \<Rightarrow> world" where
  "thread_start t w = log (EThreadStart t) w"

section \<open>ManagedAPIServer\<close>

record ManagedAPIServer =
  port :: int
  host :: string
  process :: "popen option"
  base_url :: string
  stdout_thread :: "thread option"
  stderr_thread :: "thread option"

definition ManagedAPIServer_init :: "int \<Rightarrow> string \<Rightarrow> ManagedAPIServer" where
  "ManagedAPIServer_init port' host' =
     \<lparr>port = port', host = host', process = None,
      base_url = ''http://'' @ host' @ '':'' @ str_int port',
      stdout_thread = None, stderr_thread = None\<rparr>"

text \<open>The environment of the child: \<^verbatim>\<open>{"LOG_JSON": "true", **os.environ}\<close>.\<close>

definition launch_env :: "(string \<rightharpoonup> string) \<Rightarrow> (string \<rightharpoonup> string)" where
  "launch_env environ = [''LOG_JSON'' \<mapsto> ''true''] ++ environ"

definition launch_args :: "ManagedAPIServer \<Rightarrow> string list" where
  "launch_args self =
     [''python'', ''-m'', ''openhands.agent_server'',
      ''--port'', str_int (port self), ''--host'', host self]"

text \<open>How a block of statements ends: by \<^verbatim>\<open>return self\<close>, by \<^verbatim>\<open>raise\<close>, or by running through.\<close>

datatype control = Return_self | Raise py_exception | Fallthrough

text \<open>
  The readiness loop \<^verbatim>\<open>for _ in range(max_retries)\<close> of \<^verbatim>\<open>__enter__\<close>, by the number of
  iterations left.
\<close>

fun wait_ready :: "nat \<Rightarrow> ManagedAPIServer \<Rightarrow> world \<Rightarrow> control \<times> world" where
  "wait_ready 0 self w = (Fallthrough, w)"
| "wait_ready (Suc n) self w =
     (let (response, w1) = httpx_get (base_url self @ ''/health'') 1000 w in
      if response = Response 200 then (Return_self, print (msg_ready (base_url self)) w1)
      else
        let (rc, w2) = poll Child w1 in
        if rc \<noteq> None then (Raise (RuntimeError msg_exited), w2)
        else wait_ready n self (sleep 1000 w2))"

text \<open>
  \<^verbatim>\<open>__enter__\<close> returns \<^verbatim>\<open>self\<close> or raises: the result is the exception raised, if any
  (\<open>None\<close> when \<^verbatim>\<open>self\<close> is returned), the object and the world after the call.
\<close>

definition ManagedAPIServer_enter ::
  "ManagedAPIServer \<Rightarrow> world \<Rightarrow> py_exception option \<times> ManagedAPIServer \<times> world" where
  "ManagedAPIServer_enter self w =
     (let w1 = print (msg_starting (base_url self)) w;
          (p, w2) = Popen (launch_args self) (launch_env (os_environ w1)) w1;
          self1 = self\<lparr>process := Some p\<rparr>;
          t_out = Thread ChildStdout ''SERVER'' SysStdout;
          self2 = self1\<lparr>stdout_thread := Some t_out\<rparr>;
          t_err = Thread ChildStderr ''SERVER'' SysStderr;
          self3 = self2\<lparr>stderr_thread := Some t_err\<rparr>;
          w3 = thread_start t_out w2;
          w4 = thread_start t_err w3;
          max_retries = 30
      in case wait_ready max_retries self3 w4 of
           (Return_self, w5) \<Rightarrow> (None, self3, w5)
         | (Raise e, w5) \<Rightarrow> (Some e, self3, w5)
         | (Fallthrough, w5) \<Rightarrow> (Some (RuntimeError (msg_timeout (int max_retries))), self3, w5))"


text \<open>
  \<^verbatim>\<open>Popen.terminate\<close> and \<^verbatim>\<open>Popen.kill\<close> send nothing to a child that has exited. The
  termination signal makes the child exit after \<open>child_term_delay\<close>, unless it exits by
  itself before; the kill signal ends it at once.
\<close>

definition terminate :: "popen \<Rightarrow> world \<Rightarrow> world" where
  "terminate p w =
     log ETerminate
       (if returncode w \<noteq> None then w
        else case child_term_delay w of
               None \<Rightarrow> w
             | Some d \<Rightarrow>
                 (case child_exit w of
                    None \<Rightarrow> w\<lparr>child_exit := Some (now w + d, - 15)\<rparr>
                  | Some (t, rc) \<Rightarrow>
                      if t \<le> now w + d then w else w\<lparr>child_exit := Some (now w + d, - 15)\<rparr>))"

definition kill :: "popen \<Rightarrow> world \<Rightarrow> world" where
  "kill p w =
     log EKill (if returncode w \<noteq> None then w else w\<lparr>child_exit := Some (now w, - 9)\<rparr>)"

text \<open>
  \<^verbatim>\<open>Popen.wait(timeout)\<close>: blocks until the child has exited and returns its code, or raises
  \<^verbatim>\<open>TimeoutExpired\<close> when the timeout comes first. Without a timeout, on a child that never
  exits, it does not return: the result is \<open>None\<close>.
\<close>

definition wait :: "popen \<Rightarrow> time option \<Rightarrow> world \<Rightarrow> ((py_exception + int) \<times> world) option" where
  "wait p timeout w =
     (case child_exit w of
        Some (t, rc) \<Rightarrow>
          (case timeout of
             Some d \<Rightarrow>
               if t \<le> now w + d
               then Some (Inr rc, log (EWait timeout (Inr rc)) (w\<lparr>now := max (now w) t\<rparr>))
               else Some (Inl TimeoutExpired,
                          log (EWait timeout (Inl TimeoutExpired)) (w\<lparr>now := now w + d\<rparr>))
           | None \<Rightarrow> Some (Inr rc, log (EWait timeout (Inr rc)) (w\<lparr>now := max (now w) t\<rparr>)))
      | None \<Rightarrow>
          (case timeout of
             Some d \<Rightarrow>
               Some (Inl TimeoutExpired,
                     log (EWait timeout (Inl TimeoutExpired)) (w\<lparr>now := now w + d\<rparr>))
           | None \<Rightarrow> None))"

text \<open>
  \<^verbatim>\<open>__exit__\<close>: \<open>None\<close> when the call never returns, otherwise the exception it raises, if
  any, and the world after it. The object itself is not assigned to.
\<close>

definition ManagedAPIServer_exit ::
  "ManagedAPIServer \<Rightarrow> world \<Rightarrow> (py_exception option \<times> world) option" where
  "ManagedAPIServer_exit self w =
     (case process self of
        None \<Rightarrow> Some (None, w)
      | Some p \<Rightarrow>
          (let w1 = print msg_stopping w;
               w2 = terminate p w1
           in case wait p (Some 5000) w2 of
                None \<Rightarrow> None
              | Some (Inr rc, w3) \<Rightarrow> Some (None, print msg_stopped (sleep 500 w3))
              | Some (Inl e, w3) \<Rightarrow>
                  if e = TimeoutExpired then
                    (let w4 = print msg_killing w3;
                         w5 = kill p w4
                     in case wait p None w5 of
                          None \<Rightarrow> None
                        | Some (Inr rc, w6) \<Rightarrow> Some (None, print msg_stopped (sleep 500 w6))
                        | Some (Inl e', w6) \<Rightarrow> Some (Some e', w6))
                  else Some (Some e, w3)))"

section \<open>Output forwarding\<close>

text \<open>
  The source stream of a forwarding task is the text the child still has to deliver before
  it closes the pipe, \<open>content\<close>. \<open>read_fault = Some (k, e)\<close> makes the read after \<open>k\<close>
  successful ones raise \<open>e\<close>. The target stream records what is written and flushed;
  \<open>write_fault = Some (k, e)\<close> makes the operation after \<open>k\<close> successful ones raise \<open>e\<close>.
\<close>

record istream =
  content :: string
  read_fault :: "(nat \<times> py_exception) option"
  closed :: bool

datatype out_op = OWrite string | OFlush

record ostream =
  written :: "out_op list"
  write_fault :: "(nat \<times> py_exception) option"

definition newline :: char where
  "newline = CHR 0x0A"

text \<open>The first line of a text, with its newline, and the rest.\<close>

fun split_line :: "string \<Rightarrow> string \<times> string" where
  "split_line [] = ([], [])"
| "split_line (c # cs) =
     (if c = newline then ([c], cs)
      else let (l, rest) = split_line cs in (c # l, rest))"

definition tick :: "(nat \<times> py_exception) option \<Rightarrow> (nat \<times> py_exception) option" where
  "tick f = (case f of None \<Rightarrow> None | Some (k, e) \<Rightarrow> Some (k - 1, e))"

definition due :: "(nat \<times> py_exception) option \<Rightarrow> py_exception option" where
  "due f = (case f of None \<Rightarrow> None | Some (k, e) \<Rightarrow> if k = 0 then Some e else None)"

text \<open>\<^verbatim>\<open>stream.readline()\<close>: the next line, or the empty string at the end of the stream.\<close>

definition readline :: "istream \<Rightarrow> (py_exception + string) \<times> istream" where
  "readline s =
     (if closed s then (Inl (ValueError ''I/O operation on closed file.''), s)
      else case due (read_fault s) of
             Some e \<Rightarrow> (Inl e, s)
           | None \<Rightarrow>
               let (l, rest) = split_line (content s)
               in (Inr l, s\<lparr>content := rest, read_fault := tick (read_fault s)\<rparr>))"

definition close :: "istream \<Rightarrow> istream" where
  "close s = s\<lparr>closed := True\<rparr>"

definition write_str :: "ostream \<Rightarrow> string \<Rightarrow> py_exception + ostream" where
  "write_str t s =
     (case due (write_fault t) of
        Some e \<Rightarrow> Inl e
      | None \<Rightarrow> Inr (t\<lparr>written := written t @ [OWrite s], write_fault := tick (write_fault t)\<rparr>))"

definition flush :: "ostream \<Rightarrow> py_exception + ostream" where
  "flush t =
     (case due (write_fault t) of
        Some e \<Rightarrow> Inl e
      | None \<Rightarrow> Inr (t\<lparr>written := written t @ [OFlush], write_fault := tick (write_fault t)\<rparr>))"

text \<open>The truth value of a \<^verbatim>\<open>str\<close>, as \<^verbatim>\<open>if line:\<close> takes it.\<close>

definition truthy :: "string \<Rightarrow> bool" where
  "truthy s = (s \<noteq> [])"

lemma split_line_append: "split_line s = (l, rest) \<Longrightarrow> s = l @ rest"
  by (induction s arbitrary: l rest) (auto split: if_splits prod.splits)

lemma readline_shorter:
  "readline s = (Inr l, s') \<Longrightarrow> l \<noteq> [] \<Longrightarrow> length (content s') < length (content s)"
  by (auto simp: readline_def split: if_splits option.splits prod.splits
           dest!: split_line_append)

text \<open>
  The body of \<^verbatim>\<open>try\<close> in \<^verbatim>\<open>_stream_output\<close>, the loop
  \<^verbatim>\<open>for line in iter(stream.readline, "")\<close>: the exception that ends it, if any, and the two
  streams after it.
\<close>

function forward_lines ::
  "istream \<Rightarrow> string \<Rightarrow> ostream \<Rightarrow> py_exception option \<times> istream \<times> ostream" where
  "forward_lines stream prefix target_stream =
     (case readline stream of
        (Inl e, stream1) \<Rightarrow> (Some e, stream1, target_stream)
      | (Inr line, stream1) \<Rightarrow>
          if line = [] then (None, stream1, target_stream)
          else if truthy line then
            (case write_str target_stream (''['' @ prefix @ ''] '' @ line) of
               Inl e \<Rightarrow> (Some e, stream1, target_stream)
             | Inr t1 \<Rightarrow>
                 (case flush t1 of
                    Inl e \<Rightarrow> (Some e, stream1, t1)
                  | Inr t2 \<Rightarrow> forward_lines stream1 prefix t2))
          else forward_lines stream1 prefix target_stream)"
  by pat_completeness auto
termination
  by (relation "measure (\<lambda>(stream, prefix, target_stream). length (content stream))")
     (auto dest: readline_shorter [OF sym])

declare forward_lines.simps [simp del]

text \<open>
  \<^verbatim>\<open>_stream_output(stream, prefix, target_stream)\<close>. \<open>sys_stderr\<close> is the list of the lines
  printed to \<^verbatim>\<open>sys.stderr\<close> by \<^verbatim>\<open>print\<close>, which is taken to succeed; the list is kept
  apart from the target stream, also for the task whose target is \<^verbatim>\<open>sys.stderr\<close>. The
  result is the exception that leaves the function, if any, then the source stream, the
  target stream and the printed lines after the call.
\<close>

definition stream_output ::
  "istream \<Rightarrow> string \<Rightarrow> ostream \<Rightarrow> string list \<Rightarrow>
     py_exception option \<times> istream \<times> ostream \<times> string list" where
  "stream_output stream prefix target_stream sys_stderr =
     (let (r, stream1, target1) = forward_lines stream prefix target_stream;
          sys_stderr1 = (case r of
                           None \<Rightarrow> sys_stderr
                         | Some e \<Rightarrow> sys_stderr @ [msg_forward_error prefix e]);
          stream2 = close stream1
      in (None, stream2, target1, sys_stderr1))"

section \<open>Reading the trace\<close>

text \<open>
  \<open>health_ok\<close>: the event is an HTTP GET answered with status 200. \<open>is_signal\<close>: the
  event sends the termination or the kill signal. \<open>new_events w w'\<close>: what a call that
  leads from \<open>w\<close> to \<open>w'\<close> added to the trace. \<open>slept\<close>: the time spent in
  \<^verbatim>\<open>time.sleep\<close>.
\<close>

definition health_ok :: "event \<Rightarrow> bool" where
  "health_ok e = (case e of EHttpGet _ _ r \<Rightarrow> r = Response 200 | _ \<Rightarrow> False)"

definition is_signal :: "event \<Rightarrow> bool" where
  "is_signal e = (e = ETerminate \<or> e = EKill)"

definition new_events :: "world \<Rightarrow> world \<Rightarrow> event list" where
  "new_events w w' = drop (length (trace w)) (trace w')"


text \<open>
  The object and the events of \<^verbatim>\<open>__enter__\<close> up to the readiness loop, and the world
  at that point.
\<close>

definition started :: "ManagedAPIServer \<Rightarrow> ManagedAPIServer" where
  "started self =
     self\<lparr>process := Some Child,
          stdout_thread := Some (Thread ChildStdout ''SERVER'' SysStdout),
          stderr_thread := Some (Thread ChildStderr ''SERVER'' SysStderr)\<rparr>"

definition launch_events :: "ManagedAPIServer \<Rightarrow> event list" where
  "launch_events self =
     [EPrint (msg_starting (base_url self)), EPopen (launch_args self),
      EThreadStart (Thread ChildStdout ''SERVER'' SysStdout),
      EThreadStart (Thread ChildStderr ''SERVER'' SysStderr)]"

definition launch :: "ManagedAPIServer \<Rightarrow> world \<Rightarrow> world" where
  "launch self w =
     thread_start (Thread ChildStderr ''SERVER'' SysStderr)
       (thread_start (Thread ChildStdout ''SERVER'' SysStdout)
          (snd (Popen (launch_args self) (launch_env (os_environ w))
                  (print (msg_starting (base_url self)) w))))"

text \<open>
  \<open>exits_in_grace g w\<close>: the child has exited within \<open>g\<close> ms from now, by itself or on
  the termination signal. \<open>graceful_events\<close> and \<open>forced_events\<close> are the two traces of
  \<^verbatim>\<open>__exit__\<close>.
\<close>

definition exits_in_grace :: "time \<Rightarrow> world \<Rightarrow> bool" where
  "exits_in_grace g w =
     ((case child_exit w of None \<Rightarrow> False | Some (t, rc) \<Rightarrow> t \<le> now w + g) \<or>
      (case child_term_delay w of None \<Rightarrow> False | Some d \<Rightarrow> d \<le> g))"

definition graceful_events :: "int \<Rightarrow> event list" where
  "graceful_events rc =
     [EPrint msg_stopping, ETerminate, EWait (Some 5000) (Inr rc), ESleep 500,
      EPrint msg_stopped]"

definition forced_events :: "event list" where
  "forced_events =
     [EPrint msg_stopping, ETerminate, EWait (Some 5000) (Inl TimeoutExpired),
      EPrint msg_killing, EKill, EWait None (Inr (- 9)), ESleep 500, EPrint msg_stopped]"

text \<open>
  The environment of the child in the words of the specification, to compare with
  \<open>launch_env\<close>: the fixed flag, merged with the inherited environment, plus overrides
  supplied by the caller.
\<close>

definition spec_launch_env ::
  "(string \<rightharpoonup> string) \<Rightarrow> (string \<rightharpoonup> string) \<Rightarrow> (string \<rightharpoonup> string)" where
  "spec_launch_env environ overrides = [''LOG_JSON'' \<mapsto> ''true''] ++ environ ++ overrides"

text \<open>
  \<open>terminated ls\<close>: the lines \<open>ls\<close>, each with its newline. \<open>forwarded prefix ls\<close>: the
  writes and flushes that forward the lines \<open>ls\<close>. \<open>pipe_of text\<close>: an open pipe that
  delivers \<open>text\<close> without a fault; \<open>empty_out\<close>: a target stream without a fault, with
  nothing written yet.
\<close>

definition terminated :: "string list \<Rightarrow> string list" where
  "terminated ls = map (\<lambda>l. l @ [newline]) ls"

definition forwarded :: "string \<Rightarrow> string list \<Rightarrow> out_op list" where
  "forwarded prefix ls = concat (map (\<lambda>l. [OWrite (''['' @ prefix @ ''] '' @ l), OFlush]) ls)"






section \<open>Example worlds\<close>

text \<open>
  \<open>world_up\<close>: the health endpoint answers 200 after 5 ms. \<open>world_crash\<close>: the child
  exits at once with code 1 and every connection is refused.
\<close>

definition example_world ::
  "(string \<Rightarrow> time \<Rightarrow> http_result \<times> time) \<Rightarrow> (time \<times> int) option \<Rightarrow> time option \<Rightarrow> world" where
  "example_world h ne td =
     \<lparr>now = 0, trace = [], os_environ = [''PATH'' \<mapsto> ''/usr/bin''], http_at = h,
      child_natural_exit = ne, child_term_delay = td, child_launched = None, child_exit = None\<rparr>"

definition world_up :: world where
  "world_up =
     example_world
       (\<lambda>url t. if url = ''http://127.0.0.1:8001/health'' then (Response 200, 5)
                else (Response 404, 5))
       None (Some 100)"

definition world_crash :: world where
  "world_crash =
     example_world (\<lambda>url t. (Raised (OSError ''connection refused''), 2)) (Some (0, 1)) (Some 100)"

text \<open>
  \<open>world_hang\<close>: every request is answered after 5 s, later than the timeout of the
  request; the child never exits by itself and ignores the termination signal.
  \<open>world_late_crash\<close>: the child exits 1.5 s after its launch. \<open>world_down\<close>: every
  connection is refused and the child keeps running.
\<close>

definition world_hang :: world where
  "world_hang = example_world (\<lambda>url t. (Response 200, 5000)) None None"



text \<open>
  \<open>world_stubborn\<close>: the health endpoint answers 200 after 5 ms; the child never exits by
  itself and ignores the termination signal.
\<close>

definition world_stubborn :: world where
  "world_stubborn =
     example_world
       (\<lambda>url t. if url = ''http://127.0.0.1:8001/health'' then (Response 200, 5)
                else (Response 404, 5))
       None None"

section \<open>Facts about the calls on the world\<close>

lemma health_ok_simps [simp]:
  "health_ok (EHttpGet u t r) = (r = Response 200)"
  "\<not> health_ok (EPrint s)" "\<not> health_ok (EPopen a)" "\<not> health_ok (EThreadStart th)"
  "\<not> health_ok (EPoll rc)" "\<not> health_ok (ESleep d)" "\<not> health_ok ETerminate"
  "\<not> health_ok (EWait to r')" "\<not> health_ok EKill"
  by (simp_all add: health_ok_def)

lemma log_simps [simp]:
  "trace (log e w) = trace w @ [e]" "now (log e w) = now w"
  "child_exit (log e w) = child_exit w" "http_at (log e w) = http_at w"
  "child_launched (log e w) = child_launched w" "os_environ (log e w) = os_environ w"
  "child_term_delay (log e w) = child_term_delay w"
  "child_natural_exit (log e w) = child_natural_exit w"
  by (simp_all add: log_def)

lemma returncode_log [simp]: "returncode (log e w) = returncode w"
  by (simp add: returncode_def split: option.splits)

lemma sleep_simps [simp]:
  "trace (sleep d w) = trace w @ [ESleep d]" "now (sleep d w) = now w + d"
  "child_exit (sleep d w) = child_exit w" "http_at (sleep d w) = http_at w"
  "child_launched (sleep d w) = child_launched w" "os_environ (sleep d w) = os_environ w"
  "child_term_delay (sleep d w) = child_term_delay w"
  "child_natural_exit (sleep d w) = child_natural_exit w"
  by (simp_all add: sleep_def)

lemma print_simps [simp]:
  "trace (print s w) = trace w @ [EPrint s]" "now (print s w) = now w"
  "child_exit (print s w) = child_exit w" "http_at (print s w) = http_at w"
  "child_launched (print s w) = child_launched w" "os_environ (print s w) = os_environ w"
  "child_term_delay (print s w) = child_term_delay w"
  "child_natural_exit (print s w) = child_natural_exit w"
  by (simp_all add: print_def)

lemma returncode_print [simp]: "returncode (print s w) = returncode w"
  by (simp add: print_def)

lemma httpx_get_simps [simp]:
  "trace (snd (httpx_get u t w)) = trace w @ [EHttpGet u t (fst (httpx_get u t w))]"
  "child_exit (snd (httpx_get u t w)) = child_exit w"
  "http_at (snd (httpx_get u t w)) = http_at w"
  "child_launched (snd (httpx_get u t w)) = child_launched w"
  "os_environ (snd (httpx_get u t w)) = os_environ w"
  "child_term_delay (snd (httpx_get u t w)) = child_term_delay w"
  "child_natural_exit (snd (httpx_get u t w)) = child_natural_exit w"
  by (simp_all add: httpx_get_def Let_def split: prod.splits)

lemma httpx_get_now:
  "now w \<le> now (snd (httpx_get u t w))" "now (snd (httpx_get u t w)) \<le> now w + t"
  by (simp_all add: httpx_get_def Let_def split: prod.splits)

lemma httpx_get_200:
  "(fst (httpx_get u t w) = Response 200) =
   (fst (http_at w u (now w)) = Response 200 \<and> snd (http_at w u (now w)) \<le> t)"
  by (auto simp: httpx_get_def Let_def split: prod.splits)

lemma httpx_get_late:
  "t < snd (http_at w u (now w)) \<Longrightarrow> now (snd (httpx_get u t w)) = now w + t"
  by (auto simp: httpx_get_def Let_def split: prod.splits)

lemma wait_ready_Suc:
  "wait_ready (Suc n) self w =
     (let g = httpx_get (base_url self @ ''/health'') 1000 w; w1 = snd g in
      if fst g = Response 200 then (Return_self, print (msg_ready (base_url self)) w1)
      else if returncode w1 \<noteq> None
           then (Raise (RuntimeError msg_exited), log (EPoll (returncode w1)) w1)
           else wait_ready n self (sleep 1000 (log (EPoll None) w1)))"
  by (simp add: poll_def Let_def split: prod.splits)

declare wait_ready.simps(2) [simp del]

lemma wait_ready_trace:
  "wait_ready n self w = (c, w') \<Longrightarrow>
   \<exists>evs. trace w' = trace w @ evs \<and> (\<forall>e \<in> set evs. \<not> is_signal e) \<and>
     (case c of
        Return_self \<Rightarrow>
          \<exists>pre. evs = pre @ [EHttpGet (base_url self @ ''/health'') 1000 (Response 200),
                               EPrint (msg_ready (base_url self))]
      | Raise e \<Rightarrow> e = RuntimeError msg_exited \<and> (\<forall>e \<in> set evs. \<not> health_ok e)
      | Fallthrough \<Rightarrow> (\<forall>e \<in> set evs. \<not> health_ok e))"
proof (induction n arbitrary: w)
  case 0
  then show ?case by simp
next
  case (Suc n)
  let ?u = "base_url self @ ''/health''"
  let ?g = "httpx_get ?u 1000 w"
  show ?case
  proof (cases "fst ?g = Response 200")
    case True
    with Suc.prems have "c = Return_self" "w' = print (msg_ready (base_url self)) (snd ?g)"
      by (simp_all add: wait_ready_Suc Let_def)
    then show ?thesis using True by (simp add: is_signal_def)
  next
    case no200: False
    show ?thesis
    proof (cases "returncode (snd ?g)")
      case None
      with Suc.prems no200
      have "wait_ready n self (sleep 1000 (log (EPoll None) (snd ?g))) = (c, w')"
        by (simp add: wait_ready_Suc Let_def)
      from Suc.IH [OF this] obtain evs where
        e: "trace w' = trace (sleep 1000 (log (EPoll None) (snd ?g))) @ evs" and
        s: "\<forall>e \<in> set evs. \<not> is_signal e" and
        c: "(case c of
        Return_self \<Rightarrow>
          \<exists>pre. evs = pre @ [EHttpGet ?u 1000 (Response 200),
                               EPrint (msg_ready (base_url self))]
      | Raise e \<Rightarrow> e = RuntimeError msg_exited \<and> (\<forall>e \<in> set evs. \<not> health_ok e)
      | Fallthrough \<Rightarrow> (\<forall>e \<in> set evs. \<not> health_ok e))" by blast
      let ?hd = "[EHttpGet ?u 1000 (fst ?g), EPoll None, ESleep 1000]"
      have "trace w' = trace w @ (?hd @ evs)" using e by simp
      moreover have "\<forall>e \<in> set (?hd @ evs). \<not> is_signal e"
        using s by (auto simp: is_signal_def)
      moreover have "(case c of
        Return_self \<Rightarrow>
          \<exists>pre. ?hd @ evs = pre @ [EHttpGet ?u 1000 (Response 200),
                               EPrint (msg_ready (base_url self))]
      | Raise e \<Rightarrow> e = RuntimeError msg_exited \<and> (\<forall>e \<in> set (?hd @ evs). \<not> health_ok e)
      | Fallthrough \<Rightarrow> (\<forall>e \<in> set (?hd @ evs). \<not> health_ok e))"
        using c no200 by (cases c) auto
      ultimately show ?thesis by blast
    next
      case (Some rc)
      with Suc.prems no200
      have "c = Raise (RuntimeError msg_exited)" "w' = log (EPoll (Some rc)) (snd ?g)"
        by (simp_all add: wait_ready_Suc Let_def)
      then show ?thesis using no200 by (simp add: is_signal_def)
    qed
  qed
qed

lemma wait_ready_frame:
  "wait_ready n self w = (c, w') \<Longrightarrow>
   child_exit w' = child_exit w \<and> http_at w' = http_at w \<and>
   child_launched w' = child_launched w \<and> os_environ w' = os_environ w \<and>
   child_term_delay w' = child_term_delay w \<and> child_natural_exit w' = child_natural_exit w \<and>
   now w \<le> now w'"
proof (induction n arbitrary: w)
  case 0
  then show ?case by simp
next
  case (Suc n)
  let ?g = "httpx_get (base_url self @ ''/health'') 1000 w"
  note nw = httpx_get_now(1) [of w "base_url self @ ''/health''" 1000]
  show ?case
  proof (cases "fst ?g = Response 200 \<or> returncode (snd ?g) \<noteq> None")
    case True
    with Suc.prems nw show ?thesis
      by (auto simp: wait_ready_Suc Let_def split: if_splits)
  next
    case False
    with Suc.prems
    have "wait_ready n self (sleep 1000 (log (EPoll None) (snd ?g))) = (c, w')"
      by (simp add: wait_ready_Suc Let_def)
    from Suc.IH [OF this] nw show ?thesis by simp
  qed
qed

lemma wait_ready_Raise_exited:
  "wait_ready n self w = (Raise e, w') \<Longrightarrow> returncode w' \<noteq> None"
proof (induction n arbitrary: w)
  case 0
  then show ?case by simp
next
  case (Suc n)
  let ?g = "httpx_get (base_url self @ ''/health'') 1000 w"
  show ?case
  proof (cases "fst ?g = Response 200 \<or> returncode (snd ?g) \<noteq> None")
    case True
    with Suc.prems show ?thesis
      by (auto simp: wait_ready_Suc Let_def split: if_splits)
  next
    case False
    with Suc.prems
    have "wait_ready n self (sleep 1000 (log (EPoll None) (snd ?g))) = (Raise e, w')"
      by (simp add: wait_ready_Suc Let_def)
    from Suc.IH [OF this] show ?thesis .
  qed
qed

section \<open>The start operation\<close>

lemma enter_unfold:
  "ManagedAPIServer_enter self w =
     (case wait_ready 30 (started self) (launch self w) of
        (Return_self, w5) \<Rightarrow> (None, started self, w5)
      | (Raise e, w5) \<Rightarrow> (Some e, started self, w5)
      | (Fallthrough, w5) \<Rightarrow> (Some (RuntimeError (msg_timeout 30)), started self, w5))"
  by (simp add: ManagedAPIServer_enter_def Let_def Popen_def launch_def started_def
        split: prod.splits control.splits)

lemma launch_simps [simp]:
  "trace (launch self w) = trace w @ launch_events self"
  "now (launch self w) = now w"
  "http_at (launch self w) = http_at w"
  "os_environ (launch self w) = os_environ w"
  "child_term_delay (launch self w) = child_term_delay w"
  "child_natural_exit (launch self w) = child_natural_exit w"
  "child_exit (launch self w) =
     (case child_natural_exit w of None \<Rightarrow> None | Some (d, rc) \<Rightarrow> Some (now w + d, rc))"
  "child_launched (launch self w) = Some (launch_args self, launch_env (os_environ w))"
  by (simp_all add: launch_def Popen_def thread_start_def launch_events_def
        cong: option.case_cong)

lemma enter_char:
  assumes "ManagedAPIServer_enter self w = (out, self', w')"
  shows "\<exists>c. wait_ready 30 (started self) (launch self w) = (c, w') \<and> self' = started self \<and>
           out = (case c of Return_self \<Rightarrow> None | Raise e \<Rightarrow> Some e
                  | Fallthrough \<Rightarrow> Some (RuntimeError (msg_timeout 30)))"
  using assms unfolding enter_unfold
  by (auto split: prod.splits control.splits)

lemma new_events_append [simp]: "trace w' = trace w @ evs \<Longrightarrow> new_events w w' = evs"
  by (simp add: new_events_def)

lemma base_url_started [simp]: "base_url (started self) = base_url self"
  by (simp add: started_def)

lemma example_world_simps [simp]:
  "now (example_world h ne td) = 0" "trace (example_world h ne td) = []"
  "os_environ (example_world h ne td) = [''PATH'' \<mapsto> ''/usr/bin'']"
  "http_at (example_world h ne td) = h" "child_natural_exit (example_world h ne td) = ne"
  "child_term_delay (example_world h ne td) = td"
  "child_launched (example_world h ne td) = None" "child_exit (example_world h ne td) = None"
  by (simp_all add: example_world_def)

lemma wait_ready_numeral:
  "wait_ready (numeral k) self w =
     (let g = httpx_get (base_url self @ ''/health'') 1000 w; w1 = snd g in
      if fst g = Response 200 then (Return_self, print (msg_ready (base_url self)) w1)
      else if returncode w1 \<noteq> None
           then (Raise (RuntimeError msg_exited), log (EPoll (returncode w1)) w1)
           else wait_ready (pred_numeral k) self (sleep 1000 (log (EPoll None) w1)))"
  by (simp only: numeral_eq_Suc wait_ready_Suc)

lemma httpx_get_fst:
  "fst (httpx_get u t w) =
     (if snd (http_at w u (now w)) \<le> t then fst (http_at w u (now w))
      else Raised TimeoutException)"
  by (simp add: httpx_get_def Let_def split: prod.splits)

lemma httpx_get_now_eq:
  "now (snd (httpx_get u t w)) = now w + min t (snd (http_at w u (now w)))"
  by (simp add: httpx_get_def Let_def split: prod.splits)

lemma base_url_example: "base_url (ManagedAPIServer_init 8001 ''127.0.0.1'') = ''http://127.0.0.1:8001''"
  by (simp add: ManagedAPIServer_init_def str_int_def str_nat.simps)




lemma enter_world_crash: "fst (ManagedAPIServer_enter (ManagedAPIServer_init 8001 ''127.0.0.1'') world_crash) = Some (RuntimeError msg_exited)"
  by (simp add: enter_unfold wait_ready_numeral Let_def httpx_get_fst
        world_crash_def base_url_example returncode_def httpx_get_now_eq)




section \<open>The readiness loop against the clock\<close>

lemma returncode_sleep:
  "returncode (sleep d w) =
     (case child_exit w of None \<Rightarrow> None
      | Some (t, rc) \<Rightarrow> if t \<le> now w + d then Some rc else None)"
  by (simp add: returncode_def cong: option.case_cong)

lemma returncode_after_get:
  "child_exit w = Some (te, rc) \<Longrightarrow>
   returncode (snd (httpx_get u t w)) =
     (if te \<le> now (snd (httpx_get u t w)) then Some rc else None)"
  by (simp add: returncode_def)

lemma returncode_never:
  "child_exit w = None \<Longrightarrow> returncode (snd (httpx_get u t w)) = None"
  by (simp add: returncode_def)



lemma wait_ready_all_late:
  assumes "\<forall>t. 1000 < snd (http_at w (base_url self @ ''/health'') t)"
    and "child_exit w = None"
  shows "\<exists>w'. wait_ready n self w = (Fallthrough, w') \<and> now w' = now w + 2000 * n"
  using assms
proof (induction n arbitrary: w)
  case 0
  then show ?case by simp
next
  case (Suc n)
  let ?u = "base_url self @ ''/health''"
  let ?g = "httpx_get ?u 1000 w"
  have late: "1000 < snd (http_at w ?u (now w))" using Suc.prems(1) by simp
  then have n200: "fst ?g \<noteq> Response 200" by (simp add: httpx_get_200)
  have nw: "now (snd ?g) = now w + 1000" using late by (rule httpx_get_late)
  have rc: "returncode (snd ?g) = None" using Suc.prems(2) by (simp add: returncode_never)
  let ?w2 = "sleep 1000 (log (EPoll None) (snd ?g))"
  have step: "wait_ready (Suc n) self w = wait_ready n self ?w2"
    using n200 rc by (simp add: wait_ready_Suc Let_def)
  have a1: "\<forall>t. 1000 < snd (http_at ?w2 ?u t)" using Suc.prems(1) by simp
  have a2: "child_exit ?w2 = None" using Suc.prems(2) by simp
  from Suc.IH [OF a1 a2] obtain w' where
    r: "wait_ready n self ?w2 = (Fallthrough, w')" and n: "now w' = now ?w2 + 2000 * n"
    by blast
  have "now w' = now w + 2000 * Suc n" using n nw by simp
  then show ?case using step r by simp
qed

lemma wait_ready_Fallthrough_recent:
  assumes "wait_ready (Suc n) self w = (Fallthrough, w')" and "child_exit w = Some (te, rc)"
  shows "now w' < te + 1000"
  using assms
proof (induction n arbitrary: w)
  case 0
  let ?g = "httpx_get (base_url self @ ''/health'') 1000 w"
  from "0.prems"(1) have c: "fst ?g \<noteq> Response 200" "returncode (snd ?g) = None"
    and w': "w' = sleep 1000 (log (EPoll None) (snd ?g))"
    by (auto simp: wait_ready_Suc Let_def split: if_splits)
  from c(2) returncode_after_get [OF "0.prems"(2)] have "\<not> te \<le> now (snd ?g)"
    by (auto split: if_splits)
  then show ?case using w' by simp
next
  case (Suc n)
  let ?g = "httpx_get (base_url self @ ''/health'') 1000 w"
  let ?w2 = "sleep 1000 (log (EPoll None) (snd ?g))"
  from Suc.prems(1) have "wait_ready (Suc n) self ?w2 = (Fallthrough, w')"
    by (auto simp: wait_ready_Suc [of "Suc n"] Let_def split: if_splits)
  moreover have "child_exit ?w2 = Some (te, rc)" using Suc.prems(2) by simp
  ultimately show ?case by (rule Suc.IH)
qed

section \<open>Failures of the start operation\<close>

lemma msg_exited_neq_timeout: "msg_exited \<noteq> msg_timeout 30"
  by (simp add: msg_exited_def msg_timeout_def msg_timeout_head_def)

lemma alive_iff: "alive w = (child_launched w \<noteq> None \<and> returncode w = None)"
  by (simp add: alive_def)

lemma enter_world_hang:
  "fst (ManagedAPIServer_enter (ManagedAPIServer_init 8001 ''127.0.0.1'') world_hang)
     = Some (RuntimeError (msg_timeout 30)) \<and>
   now (snd (snd (ManagedAPIServer_enter (ManagedAPIServer_init 8001 ''127.0.0.1'') world_hang)))
     = 60000 \<and>
   alive (snd (snd (ManagedAPIServer_enter (ManagedAPIServer_init 8001 ''127.0.0.1'') world_hang)))"
proof -
  let ?self = "ManagedAPIServer_init 8001 ''127.0.0.1''"
  let ?w = "launch ?self world_hang"
  have "\<forall>t. 1000 < snd (http_at ?w (base_url (started ?self) @ ''/health'') t)"
    by (simp add: world_hang_def)
  moreover have "child_exit ?w = None" by (simp add: world_hang_def)
  ultimately obtain w' where
    r: "wait_ready 30 (started ?self) ?w = (Fallthrough, w')" and n: "now w' = now ?w + 2000 * 30"
    using wait_ready_all_late [of ?w "started ?self" 30] by blast
  from wait_ready_frame [OF r] have "child_exit w' = None" "child_launched w' \<noteq> None"
    by (simp_all add: world_hang_def)
  then have "alive w'" by (simp add: alive_def returncode_def)
  then show ?thesis using r n by (simp add: enter_unfold world_hang_def)
qed

text \<open>
  C2, as stated, fails: in \<open>world_hang\<close> the start operation raises the timeout error and
  the child is still running after it.
\<close>

theorem enter_timeout_leaves_child_running:
  "fst (ManagedAPIServer_enter (ManagedAPIServer_init 8001 ''127.0.0.1'') world_hang)
     = Some (RuntimeError (msg_timeout 30)) \<and>
   alive (snd (snd (ManagedAPIServer_enter (ManagedAPIServer_init 8001 ''127.0.0.1'') world_hang)))"
  using enter_world_hang by simp

text \<open>
  C2, amended. When \<^verbatim>\<open>__enter__\<close> raises the child-exited error, the child has exited and
  none is left running. When it raises the timeout error, a child that does not exit by
  itself is still running after the error, and one that does was running at the last poll,
  one second before. On every path \<^verbatim>\<open>__enter__\<close> sends neither the termination nor the
  kill signal, and the object keeps the process handle.
\<close>

theorem enter_failure_state:
  "case ManagedAPIServer_enter self w of
     (out, self', w') \<Rightarrow>
       (out = Some (RuntimeError msg_exited) \<longrightarrow> returncode w' \<noteq> None \<and> \<not> alive w') \<and>
       (out = Some (RuntimeError (msg_timeout 30)) \<longrightarrow>
          (case child_natural_exit w of
             None \<Rightarrow> alive w'
           | Some (d, rc) \<Rightarrow> now w' < now w + d + 1000)) \<and>
       (\<forall>e \<in> set (new_events w w'). \<not> is_signal e) \<and>
       process self' = Some Child"
proof -
  obtain out self' w' where r: "ManagedAPIServer_enter self w = (out, self', w')"
    by (cases "ManagedAPIServer_enter self w")
  from enter_char [OF r] obtain c where
    l: "wait_ready 30 (started self) (launch self w) = (c, w')" and s: "self' = started self" and
    o: "out = (case c of Return_self \<Rightarrow> None | Raise e \<Rightarrow> Some e
               | Fallthrough \<Rightarrow> Some (RuntimeError (msg_timeout 30)))"
    by blast
  note f = wait_ready_frame [OF l]
  from wait_ready_trace [OF l] obtain evs where
    e: "trace w' = trace (launch self w) @ evs" and sg: "\<forall>e \<in> set evs. \<not> is_signal e"
    by blast
  have n: "new_events w w' = launch_events self @ evs" using e by simp
  have p1: "\<forall>e \<in> set (new_events w w'). \<not> is_signal e"
    using sg n by (auto simp: launch_events_def is_signal_def)
  have p2: "process self' = Some Child" using s by (simp add: started_def)
  have p3: "out = Some (RuntimeError msg_exited) \<longrightarrow> returncode w' \<noteq> None \<and> \<not> alive w'"
  proof
    assume x: "out = Some (RuntimeError msg_exited)"
    with o msg_exited_neq_timeout obtain e where "c = Raise e" by (cases c) auto
    with l have "returncode w' \<noteq> None" by (auto dest: wait_ready_Raise_exited)
    then show "returncode w' \<noteq> None \<and> \<not> alive w'" by (simp add: alive_def)
  qed
  have p4: "out = Some (RuntimeError (msg_timeout 30)) \<longrightarrow>
          (case child_natural_exit w of
             None \<Rightarrow> alive w'
           | Some (d, rc) \<Rightarrow> now w' < now w + d + 1000)"
  proof
    assume x: "out = Some (RuntimeError (msg_timeout 30))"
    from wait_ready_trace [OF l] have "\<And>e. c = Raise e \<Longrightarrow> e = RuntimeError msg_exited"
      by auto
    with x o msg_exited_neq_timeout have c: "c = Fallthrough" by (cases c) auto
    show "case child_natural_exit w of
             None \<Rightarrow> alive w'
           | Some (d, rc) \<Rightarrow> now w' < now w + d + 1000"
    proof (cases "child_natural_exit w")
      case None
      with f have "child_exit w' = None" "child_launched w' \<noteq> None" by simp_all
      then show ?thesis using None by (simp add: alive_def returncode_def)
    next
      case (Some a)
      obtain d rc where a: "a = (d, rc)" by (cases a)
      have ce: "child_exit (launch self w) = Some (now w + d, rc)" using Some a by simp
      have "wait_ready (Suc 29) (started self) (launch self w) = (Fallthrough, w')"
        using l c by simp
      from wait_ready_Fallthrough_recent [OF this ce] show ?thesis using Some a by simp
    qed
  qed
  from p1 p2 p3 p4 show ?thesis using r by simp
qed


theorem enter_failure_state_witness:
  "fst (ManagedAPIServer_enter (ManagedAPIServer_init 8001 ''127.0.0.1'') world_crash)
     = Some (RuntimeError msg_exited) \<and>
   \<not> alive (snd (snd (ManagedAPIServer_enter (ManagedAPIServer_init 8001 ''127.0.0.1'') world_crash))) \<and>
   fst (ManagedAPIServer_enter (ManagedAPIServer_init 8001 ''127.0.0.1'') world_hang)
     = Some (RuntimeError (msg_timeout 30)) \<and>
   child_natural_exit world_hang = None \<and>
   alive (snd (snd (ManagedAPIServer_enter (ManagedAPIServer_init 8001 ''127.0.0.1'') world_hang))) \<and>
   filter is_signal (new_events world_hang
     (snd (snd (ManagedAPIServer_enter (ManagedAPIServer_init 8001 ''127.0.0.1'') world_hang)))) = [] \<and>
   process (fst (snd (ManagedAPIServer_enter (ManagedAPIServer_init 8001 ''127.0.0.1'') world_hang)))
     = Some Child"
  using enter_failure_state [where w = world_crash and self = "ManagedAPIServer_init 8001 ''127.0.0.1''"]
        enter_failure_state [where w = world_hang and self = "ManagedAPIServer_init 8001 ''127.0.0.1''"]
        enter_world_crash enter_world_hang
  by (simp add: case_prod_beta filter_empty_conv world_hang_def)







section \<open>The stop operation\<close>

lemma terminate_simps [simp]:
  "trace (terminate p w) = trace w @ [ETerminate]" "now (terminate p w) = now w"
  "child_launched (terminate p w) = child_launched w"
  by (auto simp: terminate_def split: option.splits)

lemma terminate_in_grace:
  "exits_in_grace g w \<Longrightarrow> \<exists>t rc. child_exit (terminate p w) = Some (t, rc) \<and> t \<le> now w + g"
  by (auto simp: terminate_def exits_in_grace_def returncode_def split: option.splits if_splits)

lemma terminate_not_in_grace:
  "\<not> exits_in_grace g w \<Longrightarrow>
   (case child_exit (terminate p w) of None \<Rightarrow> True | Some (t, rc) \<Rightarrow> now w + g < t)"
  by (auto simp: terminate_def exits_in_grace_def returncode_def split: option.splits if_splits)

lemma exits_in_grace_print [simp]: "exits_in_grace g (print s w) = exits_in_grace g w"
  by (simp add: exits_in_grace_def cong: option.case_cong)

lemma exit_graceful:
  assumes "process self = Some p" and "exits_in_grace 5000 w"
  shows "\<exists>w' rc. ManagedAPIServer_exit self w = Some (None, w') \<and> returncode w' \<noteq> None \<and>
           trace w' = trace w @ graceful_events rc \<and> now w' \<le> now w + 5500 \<and>
           child_launched w' = child_launched w"
proof -
  let ?w2 = "terminate p (print msg_stopping w)"
  from terminate_in_grace [of 5000 "print msg_stopping w" p] assms(2)
  obtain t rc where ce: "child_exit ?w2 = Some (t, rc)" and t: "t \<le> now w + 5000"
    by auto
  let ?w3 = "log (EWait (Some 5000) (Inr rc)) (?w2\<lparr>now := max (now ?w2) t\<rparr>)"
  have w: "wait p (Some 5000) ?w2 = Some (Inr rc, ?w3)"
    using ce t by (simp add: wait_def)
  let ?w' = "print msg_stopped (sleep 500 ?w3)"
  have r: "ManagedAPIServer_exit self w = Some (None, ?w')"
    using assms(1) w by (simp add: ManagedAPIServer_exit_def Let_def)
  have "child_exit ?w' = Some (t, rc)" using ce by simp
  moreover have n: "now ?w' = max (now w) t + 500" by simp
  ultimately have "returncode ?w' \<noteq> None" by (simp add: returncode_def)
  moreover have "trace ?w' = trace w @ graceful_events rc" by (simp add: graceful_events_def)
  moreover have "now ?w' \<le> now w + 5500" using n t by simp
  moreover have "child_launched ?w' = child_launched w" by simp
  ultimately show ?thesis using r by blast
qed

lemma exit_forced:
  assumes "process self = Some p" and "\<not> exits_in_grace 5000 w"
  shows "\<exists>w'. ManagedAPIServer_exit self w = Some (None, w') \<and> returncode w' = Some (- 9) \<and>
           trace w' = trace w @ forced_events \<and> now w' = now w + 5500 \<and>
           child_launched w' = child_launched w"
proof -
  define w2 where "w2 = terminate p (print msg_stopping w)"
  define w3 where "w3 = log (EWait (Some 5000) (Inl TimeoutExpired)) (w2\<lparr>now := now w2 + 5000\<rparr>)"
  define w4 where "w4 = print msg_killing w3"
  define w5 where "w5 = kill p w4"
  define w6 where "w6 = log (EWait None (Inr (- 9))) (w5\<lparr>now := max (now w5) (now w4)\<rparr>)"
  define w' where "w' = print msg_stopped (sleep 500 w6)"
  from terminate_not_in_grace [of 5000 "print msg_stopping w" p] assms(2)
  have ce: "case child_exit w2 of None \<Rightarrow> True | Some (t, rc) \<Rightarrow> now w + 5000 < t"
    by (auto simp: w2_def split: option.splits)
  have n2: "now w2 = now w" and t2: "trace w2 = trace w @ [EPrint msg_stopping, ETerminate]"
    and l2: "child_launched w2 = child_launched w"
    by (simp_all add: w2_def)
  have w: "wait p (Some 5000) w2 = Some (Inl TimeoutExpired, w3)"
    using ce n2 by (auto simp: wait_def w3_def split: option.splits)
  have n4: "now w4 = now w + 5000" by (simp add: w4_def w3_def n2)
  have "child_exit w4 = child_exit w2" by (simp add: w4_def w3_def)
  then have rc4: "returncode w4 = None"
    using ce n4 by (auto simp: returncode_def split: option.splits)
  have k: "w5 = log EKill (w4\<lparr>child_exit := Some (now w4, - 9)\<rparr>)"
    using rc4 by (simp add: w5_def kill_def)
  have w2: "wait p None w5 = Some (Inr (- 9), w6)"
    by (simp add: k wait_def w6_def)
  have r: "ManagedAPIServer_exit self w = Some (None, w')"
    using assms(1) w w2
    by (simp add: ManagedAPIServer_exit_def Let_def w2_def [symmetric] w4_def [symmetric]
          w5_def [symmetric] w'_def)
  have "child_exit w' = Some (now w + 5000, - 9)" by (simp add: w'_def w6_def k n4)
  moreover have n: "now w' = now w + 5500" by (simp add: w'_def w6_def k n4)
  ultimately have "returncode w' = Some (- 9)" by (simp add: returncode_def)
  moreover have "trace w' = trace w @ forced_events"
    by (simp add: w'_def w6_def k w4_def w3_def t2 forced_events_def)
  moreover have "child_launched w' = child_launched w"
    by (simp add: w'_def w6_def k w4_def w3_def l2)
  ultimately show ?thesis using r n by blast
qed

text \<open>
  C8. When no process was started (\<^verbatim>\<open>self.process\<close> is \<^verbatim>\<open>None\<close>), \<^verbatim>\<open>__exit__\<close>
  returns without an exception and leaves the world as it was: nothing is printed, no signal
  is sent, no time passes.
\<close>

theorem exit_without_process_is_noop:
  "process self = None \<Longrightarrow> ManagedAPIServer_exit self w = Some (None, w)"
  by (simp add: ManagedAPIServer_exit_def)

theorem exit_without_process_is_noop_witness:
  "process (ManagedAPIServer_init 8001 ''127.0.0.1'') = None \<and>
   ManagedAPIServer_exit (ManagedAPIServer_init 8001 ''127.0.0.1'') world_up = Some (None, world_up)"
  using exit_without_process_is_noop [of "ManagedAPIServer_init 8001 ''127.0.0.1''" world_up]
  by (simp add: ManagedAPIServer_init_def)

lemma enter_world_stubborn:
  "ManagedAPIServer_enter (ManagedAPIServer_init 8001 ''127.0.0.1'') world_stubborn =
     (None, started (ManagedAPIServer_init 8001 ''127.0.0.1''),
      print (msg_ready ''http://127.0.0.1:8001'')
        (snd (httpx_get ''http://127.0.0.1:8001/health'' 1000
                (launch (ManagedAPIServer_init 8001 ''127.0.0.1'') world_stubborn))))"
  by (simp add: enter_unfold wait_ready_numeral Let_def httpx_get_fst
        world_stubborn_def base_url_example)

lemma enter_world_up_full:
  "ManagedAPIServer_enter (ManagedAPIServer_init 8001 ''127.0.0.1'') world_up =
     (None, started (ManagedAPIServer_init 8001 ''127.0.0.1''),
      print (msg_ready ''http://127.0.0.1:8001'')
        (snd (httpx_get ''http://127.0.0.1:8001/health'' 1000
                (launch (ManagedAPIServer_init 8001 ''127.0.0.1'') world_up))))"
  by (simp add: enter_unfold wait_ready_numeral Let_def httpx_get_fst
        world_up_def base_url_example)



text \<open>
  C5. For an object whose process handle is set, \<^verbatim>\<open>__exit__\<close> always returns, without an
  exception, and the child has exited when it does. It sends the termination signal and
  waits at most 5 s. When the child exits within these 5 s, by itself or on the signal,
  the wait returns its code. Otherwise, 5 s after the signal, \<^verbatim>\<open>__exit__\<close> sends the kill
  signal and waits, without a timeout, until the child is reaped. In both cases it then
  sleeps 0.5 s and prints the closing message; on the forced path it returns exactly 5.5 s
  after the call.
\<close>

theorem exit_stops_the_child:
  assumes "process self = Some p"
  shows "case ManagedAPIServer_exit self w of
           None \<Rightarrow> False
         | Some (out, w') \<Rightarrow>
             out = None \<and> returncode w' \<noteq> None \<and> \<not> alive w' \<and>
             (if exits_in_grace 5000 w
              then (\<exists>rc. new_events w w' = graceful_events rc) \<and> now w' \<le> now w + 5500
              else new_events w w' = forced_events \<and> now w' = now w + 5500)"
proof (cases "exits_in_grace 5000 w")
  case True
  from exit_graceful [OF assms True] obtain w' rc where
    "ManagedAPIServer_exit self w = Some (None, w')" "returncode w' \<noteq> None"
    "trace w' = trace w @ graceful_events rc" "now w' \<le> now w + 5500"
    by blast
  then show ?thesis using True by (auto simp: alive_def)
next
  case False
  from exit_forced [OF assms False] obtain w' where
    "ManagedAPIServer_exit self w = Some (None, w')" "returncode w' = Some (- 9)"
    "trace w' = trace w @ forced_events" "now w' = now w + 5500"
    by blast
  then show ?thesis using False by (auto simp: alive_def)
qed

theorem exit_stops_the_child_witness:
  "fst (ManagedAPIServer_enter (ManagedAPIServer_init 8001 ''127.0.0.1'') world_stubborn) = None \<and>
   process (fst (snd (ManagedAPIServer_enter (ManagedAPIServer_init 8001 ''127.0.0.1'') world_stubborn)))
     = Some Child \<and>
   map_option fst
     (ManagedAPIServer_exit
        (fst (snd (ManagedAPIServer_enter (ManagedAPIServer_init 8001 ''127.0.0.1'') world_stubborn)))
        (snd (snd (ManagedAPIServer_enter (ManagedAPIServer_init 8001 ''127.0.0.1'') world_stubborn))))
     = Some None \<and>
   map_option (alive \<circ> snd)
     (ManagedAPIServer_exit
        (fst (snd (ManagedAPIServer_enter (ManagedAPIServer_init 8001 ''127.0.0.1'') world_stubborn)))
        (snd (snd (ManagedAPIServer_enter (ManagedAPIServer_init 8001 ''127.0.0.1'') world_stubborn))))
     = Some False \<and>
   map_option (now \<circ> snd)
     (ManagedAPIServer_exit
        (fst (snd (ManagedAPIServer_enter (ManagedAPIServer_init 8001 ''127.0.0.1'') world_stubborn)))
        (snd (snd (ManagedAPIServer_enter (ManagedAPIServer_init 8001 ''127.0.0.1'') world_stubborn))))
     = Some 5505"
proof -
  let ?s = "ManagedAPIServer_init 8001 ''127.0.0.1''"
  define w1 where "w1 = print (msg_ready ''http://127.0.0.1:8001'')
        (snd (httpx_get ''http://127.0.0.1:8001/health'' 1000 (launch ?s world_stubborn)))"
  have e: "ManagedAPIServer_enter ?s world_stubborn = (None, started ?s, w1)"
    unfolding w1_def by (rule enter_world_stubborn)
  have p: "process (started ?s) = Some Child" by (simp add: started_def)
  have ng: "\<not> exits_in_grace 5000 w1"
    by (simp add: w1_def exits_in_grace_def world_stubborn_def)
  have n1: "now w1 = 5"
    by (simp add: w1_def httpx_get_now_eq world_stubborn_def)
  from exit_stops_the_child [OF p, of w1] ng n1
  have "case ManagedAPIServer_exit (started ?s) w1 of
          None \<Rightarrow> False
        | Some (out, w') \<Rightarrow> out = None \<and> \<not> alive w' \<and> now w' = 5505"
    by (auto split: option.splits)
  then show ?thesis using e p by (auto split: option.splits)
qed

section \<open>The launch of the child\<close>

lemma enter_child_launched:
  "ManagedAPIServer_enter self w = (out, self', w') \<Longrightarrow>
   child_launched w' = Some (launch_args self, launch_env (os_environ w)) \<and>
   (\<exists>a b. new_events w w' = a @ [EPopen (launch_args self)] @ b)"
proof -
  assume r: "ManagedAPIServer_enter self w = (out, self', w')"
  from enter_char [OF r] obtain c where
    l: "wait_ready 30 (started self) (launch self w) = (c, w')" by blast
  from wait_ready_trace [OF l] obtain evs where
    e: "trace w' = trace (launch self w) @ evs" by blast
  have "new_events w w' = [EPrint (msg_starting (base_url self))] @ [EPopen (launch_args self)] @
      ([EThreadStart (Thread ChildStdout ''SERVER'' SysStdout),
        EThreadStart (Thread ChildStderr ''SERVER'' SysStderr)] @ evs)"
    using e by (simp add: launch_events_def)
  then have "\<exists>a b. new_events w w' = a @ [EPopen (launch_args self)] @ b" by blast
  then show ?thesis using wait_ready_frame [OF l] by simp
qed


lemma os_environ_world_up: "os_environ world_up = [''PATH'' \<mapsto> ''/usr/bin'']"
  by (simp add: world_up_def)

text \<open>
  C9, as stated, fails: the environment of the launched child has no entry supplied by the
  caller. With the override \<^verbatim>\<open>DEBUG=1\<close> the environment of the specification differs
  from the one \<^verbatim>\<open>__enter__\<close> passes.
\<close>

theorem enter_environment_has_no_overrides:
  "map_option snd
     (child_launched
        (snd (snd (ManagedAPIServer_enter (ManagedAPIServer_init 8001 ''127.0.0.1'') world_up))))
     \<noteq> Some (spec_launch_env (os_environ world_up) [''DEBUG'' \<mapsto> ''1''])"
proof
  let ?s = "ManagedAPIServer_init 8001 ''127.0.0.1''"
  obtain out self' w' where r: "ManagedAPIServer_enter ?s world_up = (out, self', w')"
    by (cases "ManagedAPIServer_enter ?s world_up")
  assume "map_option snd (child_launched (snd (snd (ManagedAPIServer_enter ?s world_up)))) =
      Some (spec_launch_env (os_environ world_up) [''DEBUG'' \<mapsto> ''1''])"
  with r have a: "map_option snd (child_launched w') =
      Some (spec_launch_env (os_environ world_up) [''DEBUG'' \<mapsto> ''1''])" by simp
  from enter_child_launched [OF r]
  have "child_launched w' = Some (launch_args ?s, launch_env (os_environ world_up))" by blast
  with a have "launch_env (os_environ world_up) =
      spec_launch_env (os_environ world_up) [''DEBUG'' \<mapsto> ''1'']" by simp
  then have "launch_env (os_environ world_up) ''DEBUG'' =
      spec_launch_env (os_environ world_up) [''DEBUG'' \<mapsto> ''1''] ''DEBUG''" by (rule arg_cong)
  then show False
    unfolding os_environ_world_up
    by (simp add: launch_env_def spec_launch_env_def map_add_def)
qed

text \<open>
  C9, amended. \<^verbatim>\<open>__enter__\<close> launches the child with the arguments
  \<^verbatim>\<open>python -m openhands.agent_server --port <port> --host <host>\<close> and with the
  inherited environment, to which \<^verbatim>\<open>LOG_JSON=true\<close> is added when the inherited
  environment does not set \<^verbatim>\<open>LOG_JSON\<close>. Nothing else enters the environment.
\<close>

theorem enter_launch_arguments_and_environment:
  "case ManagedAPIServer_enter self w of
     (out, self', w') \<Rightarrow>
       child_launched w' =
         Some ([''python'', ''-m'', ''openhands.agent_server'',
                ''--port'', str_int (port self), ''--host'', host self],
               launch_env (os_environ w)) \<and>
       (\<exists>a b. new_events w w' =
          a @ [EPopen [''python'', ''-m'', ''openhands.agent_server'',
                       ''--port'', str_int (port self), ''--host'', host self]] @ b) \<and>
       (\<forall>k. launch_env (os_environ w) k =
          (case os_environ w k of
             Some v \<Rightarrow> Some v
           | None \<Rightarrow> if k = ''LOG_JSON'' then Some ''true'' else None))"
proof -
  obtain out self' w' where r: "ManagedAPIServer_enter self w = (out, self', w')"
    by (cases "ManagedAPIServer_enter self w")
  have "\<forall>k. launch_env (os_environ w) k =
          (case os_environ w k of
             Some v \<Rightarrow> Some v
           | None \<Rightarrow> if k = ''LOG_JSON'' then Some ''true'' else None)"
    by (simp add: launch_env_def map_add_def split: option.splits)
  then show ?thesis using enter_child_launched [OF r] r by (simp add: launch_args_def)
qed

section \<open>The forwarding task\<close>

lemma split_line_terminated:
  "newline \<notin> set l \<Longrightarrow> split_line (l @ newline # rest) = (l @ [newline], rest)"
  by (induction l) auto

lemma tick_simps [simp]:
  "tick None = None" "tick (Some (k, e)) = Some (k - 1, e)"
  by (simp_all add: tick_def)

lemma due_simps [simp]:
  "due None = None" "due (Some (0, e)) = Some e" "due (Some (Suc k, e)) = None"
  by (simp_all add: due_def)

lemma readline_eof:
  "\<not> closed s \<Longrightarrow> due (read_fault s) = None \<Longrightarrow> content s = [] \<Longrightarrow>
   readline s = (Inr [], s\<lparr>read_fault := tick (read_fault s)\<rparr>)"
  by (simp add: readline_def)

lemma readline_line:
  "\<not> closed s \<Longrightarrow> due (read_fault s) = None \<Longrightarrow> newline \<notin> set l \<Longrightarrow>
   content s = l @ newline # rest \<Longrightarrow>
   readline s = (Inr (l @ [newline]), s\<lparr>content := rest, read_fault := tick (read_fault s)\<rparr>)"
  by (simp add: readline_def split_line_terminated)

lemma readline_fault:
  "\<not> closed s \<Longrightarrow> due (read_fault s) = Some e \<Longrightarrow> readline s = (Inl e, s)"
  by (simp add: readline_def)


lemma flush_ok:
  "due (write_fault t) = None \<Longrightarrow>
   flush t = Inr (t\<lparr>written := written t @ [OFlush], write_fault := tick (write_fault t)\<rparr>)"
  by (simp add: flush_def)

lemma forwarded_Cons:
  "forwarded prefix (l # ls) = [OWrite (''['' @ prefix @ ''] '' @ l), OFlush] @ forwarded prefix ls"
  by (simp add: forwarded_def)

lemma forwarded_Nil [simp]: "forwarded prefix [] = []"
  by (simp add: forwarded_def)




lemma forward_lines_write_fault:
  assumes "\<not> closed s" and "read_fault s = None" and "write_fault t = Some (k, e)"
    and "\<forall>l \<in> set ls. newline \<notin> set l" and "content s = concat (terminated ls)"
    and "k < 2 * length ls"
  shows "forward_lines s prefix t =
           (Some e,
            s\<lparr>content := concat (terminated (drop (Suc (k div 2)) ls))\<rparr>,
            t\<lparr>written := written t @ take k (forwarded prefix (terminated ls)),
              write_fault := Some (0, e)\<rparr>)"
  using assms
proof (induction ls arbitrary: s t k)
  case Nil
  then show ?case by simp
next
  case (Cons l ls)
  let ?line = "l @ [newline]"
  let ?s1 = "s\<lparr>content := concat (terminated ls)\<rparr>"
  let ?x = "''['' @ prefix @ ''] '' @ ?line"
  have c: "content s = l @ newline # concat (terminated ls)"
    using Cons.prems(5) by (simp add: terminated_def)
  have nl: "newline \<notin> set l" using Cons.prems(4) by simp
  have r: "readline s = (Inr ?line, ?s1)"
    using readline_line [OF Cons.prems(1) _ nl c] Cons.prems(2) by simp
  have d1: "concat (terminated (drop (Suc (k div 2)) (l # ls))) = concat (terminated (drop (k div 2) ls))"
    by simp
  show ?case
  proof (cases k)
    case 0
    then have "write_str t ?x = Inl e" using Cons.prems(3) by (simp add: write_str_def)
    moreover have "t\<lparr>written := written t, write_fault := Some (0, e)\<rparr> = t"
      using Cons.prems(3) 0 by simp
    ultimately show ?thesis
      using r 0 by (simp add: forward_lines.simps [of s] truthy_def)
  next
    case (Suc k1)
    let ?t1 = "t\<lparr>written := written t @ [OWrite ?x], write_fault := Some (k1, e)\<rparr>"
    have w: "write_str t ?x = Inr ?t1"
      using Cons.prems(3) Suc by (simp add: write_str_def)
    show ?thesis
    proof (cases k1)
      case 0
      then have "flush ?t1 = Inl e" by (simp add: flush_def)
      then show ?thesis
        using r w 0 Suc
        by (simp add: forward_lines.simps [of s] truthy_def terminated_def forwarded_Cons)
    next
      case (Suc k2)
      let ?t2 = "t\<lparr>written := written t @ [OWrite ?x, OFlush], write_fault := Some (k2, e)\<rparr>"
      have f: "flush ?t1 = Inr ?t2" using Suc by (simp add: flush_def)
      have step: "forward_lines s prefix t = forward_lines ?s1 prefix ?t2"
        using r w f by (simp add: forward_lines.simps [of s] truthy_def)
      have k: "k = Suc (Suc k2)" using \<open>k = Suc k1\<close> Suc by simp
      have "forward_lines ?s1 prefix ?t2 =
         (Some e,
          ?s1\<lparr>content := concat (terminated (drop (Suc (k2 div 2)) ls))\<rparr>,
          ?t2\<lparr>written := written ?t2 @ take k2 (forwarded prefix (terminated ls)),
               write_fault := Some (0, e)\<rparr>)"
        using Cons.prems k by (intro Cons.IH) simp_all
      then show ?thesis
        using step k by (simp add: terminated_def forwarded_Cons)
    qed
  qed
qed

lemma stream_output_eq:
  "stream_output s prefix t printed =
     (None, close (fst (snd (forward_lines s prefix t))), snd (snd (forward_lines s prefix t)),
      (case fst (forward_lines s prefix t) of
         None \<Rightarrow> printed
       | Some e \<Rightarrow> printed @ [msg_forward_error prefix e]))"
  by (simp add: stream_output_def split: prod.splits)



text \<open>
  C10. Whatever the streams hold and whichever read or write raises, the source stream is
  closed when \<^verbatim>\<open>_stream_output\<close> is left.
\<close>

theorem stream_output_closes_source:
  "closed (fst (snd (stream_output stream prefix target_stream printed)))"
  by (simp add: stream_output_eq close_def)

section \<open>A fault in a forwarding task\<close>






end
